theory Spec2Isabelle
  imports Main "HOL-Library.Word" "HOL-Library.Sublist"
begin

unbundle bit_operations_syntax

section \<open>C strings held in fixed arrays\<close>

text \<open>
  The HTTP module of the modem driver composes requests in caller-owned \<open>char\<close> arrays
  with \<open>strcat\<close>, \<open>memcpy\<close> and \<open>strlen\<close>.  An array is modelled as the list of its
  bytes (its length is the array's capacity); the C string it holds is the prefix before
  the first NUL.  An access outside the array is the outcome \<open>BufferOverrun\<close>, a read
  through a \<open>NULL\<close> pointer the outcome \<open>NullDeref\<close>; a failed \<open>ASSERT\<close> (enabled by
  default in this file: \<open>DISABLE_ASSERTS\<close> is commented out) is the outcome
  \<open>AssertFailed\<close>.
\<close>

datatype error = AssertFailed | BufferOverrun | NullDeref

definition bind_err :: "error + 'a \<Rightarrow> ('a \<Rightarrow> error + 'b) \<Rightarrow> error + 'b" where
  "bind_err r f = (case r of Inl e \<Rightarrow> Inl e | Inr x \<Rightarrow> f x)"

definition NUL :: char where
  "NUL = CHR 0x00"

definition CR :: char where
  "CR = CHR 0x0D"

definition LF :: char where
  "LF = CHR 0x0A"

definition CRLF :: string where
  "CRLF = [CR, LF]"

definition c_str :: "string \<Rightarrow> string" where
  "c_str buf = takeWhile (\<lambda>c. c \<noteq> NUL) buf"

definition strlen :: "string \<Rightarrow> error + nat" where
  "strlen buf = (if NUL \<in> set buf then Inr (length (c_str buf)) else Inl BufferOverrun)"

definition memcpy :: "string \<Rightarrow> nat \<Rightarrow> string \<Rightarrow> error + string" where
  "memcpy buf off src =
     (if off + length src \<le> length buf
      then Inr (take off buf @ src @ drop (off + length src) buf)
      else Inl BufferOverrun)"

definition strcat :: "string \<Rightarrow> string \<Rightarrow> error + string" where
  "strcat buf src = bind_err (strlen buf) (\<lambda>n. memcpy buf n (src @ [NUL]))"

section \<open>RequestBuilder\<close>

text \<open>
  Modelled from the spec: \<open>httpRequest_t\<close> is declared in \<open>ltemc-http.h\<close>, which is not
  among the sources.  The record has the staging buffer with its capacity, \<open>headersLen\<close>
  and \<open>contentLen\<close> of the specification's data model: the four fields the initializer
  in \<open>http_createRequest\<close> names, with the 16-bit width of that function's
  \<open>reqstBffrSz\<close> parameter.  \<open>requestBuffer\<close> holds the bytes of the caller's array.
\<close>

record httpRequest =
  requestBuffer :: string
  requestBuffersz :: "16 word"
  contentLen :: "16 word"
  headersLen :: "16 word"

text \<open>
  Modelled from the spec: \<open>httpRequestType_t\<close> is declared in the same header; the
  function distinguishes GET, POST and any other method.
\<close>

datatype httpRequestType = httpRequestType_GET | httpRequestType_POST | httpRequestType_none

text \<open>
  \<open>http_createRequest\<close>.  \<open>COMPARES(x)\<close> is \<open>x == 0\<close>.  When the host starts with
  \<open>http\<close> or \<open>HTTP\<close> the source assigns \<open>host = (host, ':', strlen(host)) + 3\<close>: a comma
  expression whose value is \<open>strlen(host)\<close>, so the new pointer is the address
  \<open>strlen(host) + 3\<close>.  \<open>mem a\<close> is the C string the target's memory holds at address
  \<open>a\<close>.  The final statement \<open>httpRqst.requestBuffer == reqstBffr\<close> is a comparison
  without effect.
\<close>

definition http_createRequest ::
  "(nat \<Rightarrow> string) \<Rightarrow> httpRequestType \<Rightarrow> string \<Rightarrow> string \<Rightarrow> 16 word \<Rightarrow> error + httpRequest" where
  "http_createRequest mem reqstType host relativeUrl reqstBffrSz =
     (if length host = 0 then Inl AssertFailed
      else if length relativeUrl = 0 then Inl AssertFailed
      else
        let httpRqst = \<lparr>requestBuffer = replicate (unat reqstBffrSz) NUL,
                         requestBuffersz = reqstBffrSz, contentLen = 0, headersLen = 0\<rparr>;
            host' = (if take 4 host = ''http'' \<or> take 4 host = ''HTTP''
                     then mem (length host + 3) else host)
        in if reqstType = httpRequestType_GET \<or> reqstType = httpRequestType_POST then
             bind_err (strcat (requestBuffer httpRqst)
                         (if reqstType = httpRequestType_GET then ''GET '' else ''POST ''))
               (\<lambda>b1. bind_err (strcat b1 relativeUrl)
               (\<lambda>b2. bind_err (strcat b2 ('' HTTP/1.1'' @ CRLF @ ''Host: ''))
               (\<lambda>b3. bind_err (strcat b3 host')
               (\<lambda>b4. Inr (httpRqst\<lparr>requestBuffer := b4\<rparr>)))))
           else
             bind_err (strcat (requestBuffer httpRqst) ''INVALID_TYPE'')
               (\<lambda>b1. Inr (httpRqst\<lparr>requestBuffer := b1\<rparr>)))"

text \<open>
  The header functions open with
  \<open>ASSERT(*(request->requestBuffer + strlen(request->requestBuffer) - 2) = '\r')\<close>.
  The operator is an assignment: the byte two before the terminator is overwritten with
  CR, and the asserted value (CR) is never zero.
\<close>

definition assert_endsCR :: "string \<Rightarrow> error + string" where
  "assert_endsCR buf =
     bind_err (strlen buf)
       (\<lambda>n. if n < 2 then Inl BufferOverrun else Inr (buf[n - 2 := CR]))"

text \<open>
  Modelled from the spec: the header bitmap \<open>httpHeaderMap_t\<close> is declared in
  \<open>ltemc-http.h\<close> (not among the sources): one bit for each of the four common
  headers, and the value that selects all.
\<close>

definition httpHeaderMap_accept :: "16 word" where
  "httpHeaderMap_accept = 0x0001"

definition httpHeaderMap_userAgent :: "16 word" where
  "httpHeaderMap_userAgent = 0x0002"

definition httpHeaderMap_connection :: "16 word" where
  "httpHeaderMap_connection = 0x0004"

definition httpHeaderMap_contentType :: "16 word" where
  "httpHeaderMap_contentType = 0x0008"

definition httpHeaderMap_all :: "16 word" where
  "httpHeaderMap_all = 0xFFFF"

text \<open>
  The test \<open>headerMap & httpHeaderMap_x > 0 || headerMap == httpHeaderMap_all\<close>: in C the
  relational operator binds tighter than \<open>&\<close>, so the left operand is
  \<open>headerMap & (httpHeaderMap_x > 0)\<close>.
\<close>

definition hdrTest :: "16 word \<Rightarrow> 16 word \<Rightarrow> bool" where
  "hdrTest headerMap hdrBit =
     ((headerMap AND (if hdrBit > 0 then 1 else 0)) \<noteq> 0 \<or> headerMap = httpHeaderMap_all)"

definition strcat_if :: "bool \<Rightarrow> string \<Rightarrow> string \<Rightarrow> error + string" where
  "strcat_if c buf src = (if c then strcat buf src else Inr buf)"

text \<open>
  \<open>http_addCommonHdrs\<close>.  \<open>commandHdrSz\<close> is the constant \<open>http__commandHdrSz\<close> of the
  missing header, taken as a parameter.
\<close>

definition http_addCommonHdrs :: "nat \<Rightarrow> httpRequest \<Rightarrow> 16 word \<Rightarrow> error + httpRequest" where
  "http_addCommonHdrs commandHdrSz request headerMap =
     (if \<not> headerMap > 0 then Inl AssertFailed
      else if contentLen request \<noteq> 0 then Inl AssertFailed
      else
        bind_err (assert_endsCR (requestBuffer request))
          (\<lambda>b0. bind_err (strlen b0)
          (\<lambda>n. if \<not> n + commandHdrSz < unat (requestBuffersz request) then Inl AssertFailed
               else
                 bind_err (strcat_if (hdrTest headerMap httpHeaderMap_accept) b0
                             (''Accept: */*'' @ CRLF))
                 (\<lambda>b1. bind_err (strcat_if (hdrTest headerMap httpHeaderMap_userAgent) b1
                             (''User-Agent: QUECTEL_MODULE'' @ CRLF))
                 (\<lambda>b2. bind_err (strcat_if (hdrTest headerMap httpHeaderMap_connection) b2
                             (''Connection: Keep-Alive'' @ CRLF))
                 (\<lambda>b3. bind_err (strcat_if (hdrTest headerMap httpHeaderMap_contentType) b3
                             (''Content-Type: application/octet-stream'' @ CRLF))
                 (\<lambda>b4. Inr (request\<lparr>requestBuffer := b4\<rparr>))))))))"

text \<open>
  \<open>http_addPostData\<close>.  \<open>postData\<close> is the caller's byte array and \<open>postDataSz\<close> the
  number of bytes to copy from it.  The capacity assertion stands inside the branch
  taken while \<open>contentLen\<close> is 0, after the placeholder has been appended; the operands
  are promoted to \<open>int\<close>, so the sum does not wrap.
\<close>

definition contentLengthPlaceholder :: string where
  "contentLengthPlaceholder = ''Content-Length:     0'' @ CRLF @ CRLF"

definition http_addPostData :: "httpRequest \<Rightarrow> string \<Rightarrow> 16 word \<Rightarrow> error + httpRequest" where
  "http_addPostData request postData postDataSz =
     bind_err (assert_endsCR (requestBuffer request))
       (\<lambda>b0. bind_err
          (if contentLen request = 0 then
             bind_err (strcat b0 contentLengthPlaceholder)
               (\<lambda>b1. bind_err (strlen b1)
               (\<lambda>n. let r1 = request\<lparr>requestBuffer := b1, headersLen := of_nat n\<rparr>
                    in if unat (headersLen r1) + unat postDataSz < unat (requestBuffersz r1)
                       then Inr r1 else Inl AssertFailed))
           else Inr (request\<lparr>requestBuffer := b0\<rparr>))
       (\<lambda>r. if length postData < unat postDataSz then Inl BufferOverrun
            else
              bind_err (memcpy (requestBuffer r) (unat (headersLen r) + unat (contentLen r))
                          (take (unat postDataSz) postData))
                (\<lambda>b2. Inr (r\<lparr>requestBuffer := b2, contentLen := contentLen r + postDataSz\<rparr>))))"

section \<open>Result codes and the HTTP control\<close>

text \<open>
  Modelled from the spec: \<open>resultCode_t\<close> and its named values are declared in the shared
  \<open>lq-embed\<close> headers, which are not among the sources.  The success range 200..299 is
  the one the specification gives; the codes it names (Timeout, PreconditionFailed,
  InternalError) carry the HTTP numbers of those names.  The statements below use the
  names; none depends on the number chosen for a code outside the success range.
\<close>

type_synonym resultCode = "16 word"

definition resultCode__success :: resultCode where
  "resultCode__success = 200"

definition resultCode__successMax :: resultCode where
  "resultCode__successMax = 299"

definition resultCode__timeout :: resultCode where
  "resultCode__timeout = 408"

definition resultCode__preConditionFailed :: resultCode where
  "resultCode__preConditionFailed = 412"

definition resultCode__internalError :: resultCode where
  "resultCode__internalError = 500"

definition resultCode__unknown :: resultCode where
  "resultCode__unknown = 0"

datatype httpState = httpState_idle | httpState_requestComplete

text \<open>
  Modelled from the spec: \<open>httpCtrl_t\<close> is declared in \<open>ltemc-http.h\<close> (not among the
  sources).  The record has the fields of the specification's HttpControl that the
  functions below read or write.  \<open>httpStatus\<close> has the width of the \<open>uint16_t\<close> that
  \<open>S__parseResponseForHttpStatus\<close> returns from it; the page counters are unsigned
  32-bit.  \<open>hostUrl\<close> and \<open>requestType\<close> are \<open>char\<close> arrays.
\<close>

record httpCtrl =
  dataCntxt :: nat
  hostUrl :: string
  hostPort :: "16 word"
  useTls :: bool
  returnResponseHdrs :: bool
  timeoutSec :: nat
  defaultBlockSz :: "16 word"
  requestType :: string
  requestState :: httpState
  httpStatus :: "16 word"
  pageSize :: "32 word"
  pageRemaining :: "32 word"

section \<open>ConnectionConfig\<close>

definition strncpy :: "nat \<Rightarrow> string \<Rightarrow> string" where
  "strncpy n src = take n (src @ replicate n NUL)"

text \<open>
  \<open>http_setConnection\<close>.  \<open>hostUrlSz\<close> is \<open>sizeof(httpCtrl->hostUrl)\<close>, a constant of
  the missing header, taken as a parameter.
\<close>

definition http_setConnection :: "nat \<Rightarrow> httpCtrl \<Rightarrow> string \<Rightarrow> 16 word \<Rightarrow> error + httpCtrl" where
  "http_setConnection hostUrlSz httpCtrl hostUrlArg hostPortArg =
     (if \<not> (take 4 hostUrlArg = ''HTTP'' \<or> take 4 hostUrlArg = ''http'') then Inl AssertFailed
      else if \<not> (hostPortArg = 0 \<or> hostPortArg \<ge> 80) then Inl AssertFailed
      else if hostUrlSz \<le> 4 then Inl BufferOverrun
      else
        let c1 = httpCtrl\<lparr>hostUrl := strncpy hostUrlSz hostUrlArg\<rparr>;
            c2 = c1\<lparr>useTls := (hostUrl c1 ! 4 = CHR ''S'' \<or> hostUrl c1 ! 4 = CHR ''s'')\<rparr>
        in Inr (if hostPortArg = 0
                then c2\<lparr>hostPort := (if useTls c2 then 443 else 80)\<rparr>
                else c2))"

section \<open>ResponseStatusParser\<close>

text \<open>
  \<open>strtol(nptr, &endptr, 10)\<close> of the C library, for the target's 32-bit \<open>long\<close>: it
  skips white space, takes an optional sign and the decimal digits, saturates at the
  limits of \<open>long\<close>, and leaves \<open>endptr\<close> at \<open>nptr\<close> when there is no digit.  The
  result is the value and the text at \<open>endptr\<close>.
\<close>

definition isspace :: "char \<Rightarrow> bool" where
  "isspace c = (c = CHR '' '' \<or> (9 \<le> (of_char c :: nat) \<and> (of_char c :: nat) \<le> 13))"

definition isdigit :: "char \<Rightarrow> bool" where
  "isdigit c = (48 \<le> (of_char c :: nat) \<and> (of_char c :: nat) \<le> 57)"

definition digit_val :: "char \<Rightarrow> int" where
  "digit_val c = int (of_char c) - 48"

fun strtol_digits :: "int \<Rightarrow> string \<Rightarrow> int \<times> string" where
  "strtol_digits acc [] = (acc, [])"
| "strtol_digits acc (c # cs) =
     (if isdigit c then strtol_digits (acc * 10 + digit_val c) cs else (acc, c # cs))"

definition clamp_long :: "int \<Rightarrow> int" where
  "clamp_long v = max (- (2 ^ 31)) (min (2 ^ 31 - 1) v)"

definition strtol :: "string \<Rightarrow> int \<times> string" where
  "strtol nptr =
     (let s = dropWhile isspace nptr;
          neg = (take 1 s = ''-'');
          s1 = (if take 1 s = ''-'' \<or> take 1 s = ''+'' then drop 1 s else s)
      in if s1 \<noteq> [] \<and> isdigit (hd s1)
         then (let (v, endptr) = strtol_digits 0 s1
               in (clamp_long (if neg then - v else v), endptr))
         else (0, nptr))"

definition strchr :: "string \<Rightarrow> char \<Rightarrow> string option" where
  "strchr s c = (let r = dropWhile (\<lambda>x. x \<noteq> c) s in if r = [] then None else Some r)"

text \<open>
  \<open>strtol\<close> reading from an array of which \<open>s\<close> is the rest: the scan runs off the
  array when every remaining byte is white space, a sign in place, or a digit.
\<close>

definition strtol_arr :: "string \<Rightarrow> error + int" where
  "strtol_arr s =
     (let s0 = dropWhile isspace s;
          s1 = (if take 1 s0 = ''-'' \<or> take 1 s0 = ''+'' then drop 1 s0 else s0)
      in if dropWhile isdigit s1 = [] then Inl BufferOverrun else Inr (fst (strtol s)))"

text \<open>
  \<open>S__parseResponseForHttpStatus\<close>: \<open>response\<close> is the C string
  \<open>atcmd_getResponse()\<close> returns, \<open>behind\<close> the bytes that follow its terminator in the
  dispatcher's response buffer.  Each \<open>++continueAt\<close> steps over one character.  When
  the first \<open>strtol\<close> stops at the terminator (a tail without a content length), the
  second \<open>++continueAt\<close> steps over the terminator and the second \<open>strtol\<close> reads the
  bytes behind it.  The function returns the status and the updated control.
\<close>

definition S__parseResponseForHttpStatus ::
  "httpCtrl \<Rightarrow> string \<Rightarrow> string \<Rightarrow> error + (16 word \<times> httpCtrl)" where
  "S__parseResponseForHttpStatus httpCtrl response behind =
     (case strchr response (CHR '','') of
        Some continueAt \<Rightarrow>
          (let (v1, continueAt1) = strtol (drop 1 continueAt);
               c1 = httpCtrl\<lparr>httpStatus := word_of_int v1\<rparr>
           in bind_err (if continueAt1 = [] then strtol_arr behind
                        else Inr (fst (strtol (drop 1 continueAt1))))
                (\<lambda>v2.
                   let c2 = c1\<lparr>pageSize := word_of_int v2\<rparr>;
                       c3 = c2\<lparr>pageRemaining := 0\<rparr>;
                       c4 = (if pageSize c3 > 0 then c3\<lparr>pageRemaining := pageSize c3\<rparr>
                             else c3)
                   in Inr (httpStatus c4, c4)))
      | None \<Rightarrow>
          (let c1 = httpCtrl\<lparr>httpStatus := resultCode__preConditionFailed\<rparr>
           in Inr (httpStatus c1, c1)))"

section \<open>RequestEngine\<close>

text \<open>
  The AT-command dispatcher is an external collaborator.  What the engine asks of it is
  recorded as a list of \<open>at_action\<close>s, one constructor per command format string of the
  source; what it answers is an \<open>atcmd_env\<close>: whether \<open>ATCMD_awaitLock\<close> obtains the lock,
  the result awaited after each command, and, for the trailer, \<open>atcmd_getValue()\<close>,
  \<open>atcmd_getResponse()\<close> and the bytes behind the response in its buffer.

  A request function either returns (\<open>Inr\<close>: the code returned, the control after the
  call, the actions issued) or stops where the source reads through a \<open>NULL\<close> pointer or
  outside an array (\<open>Inl\<close>: the fault and the actions issued before it).
\<close>

datatype at_action =
    AT_QHTTPCFG_responseheader bool
  | AT_QHTTPCFG_sslctxid nat
  | AT_QHTTPCFG_requestheader
  | AT_QHTTPURL nat
  | AT_QHTTPGET nat
  | AT_QHTTPGET_hdrs nat nat
  | AT_QHTTPPOST nat nat
  | AT_QHTTPPOSTFILE string
  | atcmd_configDataMode nat string string nat
  | atcmd_reset
  | atcmd_close

record atcmd_env =
  lockAcquired :: bool
  rspHdrCfgRslt :: resultCode
  sslCfgRslt :: resultCode
  setUrlRslt :: resultCode
  rqstHdrCfgRslt :: resultCode
  trailerRslt :: resultCode
  trailerValue :: int
  trailerResponse :: string
  trailerBehind :: string

type_synonym request_outcome =
  "(error \<times> at_action list) + (resultCode \<times> httpCtrl \<times> at_action list)"

text \<open>
  Modelled from the spec: \<open>PERIOD_FROM_SECONDS\<close> is a macro of the shared headers (not
  among the sources); it turns seconds into the milliseconds the dispatcher counts.
\<close>

definition PERIOD_FROM_SECONDS :: "nat \<Rightarrow> nat" where
  "PERIOD_FROM_SECONDS period = period * 1000"

text \<open>
  \<open>S__setUrl\<close>: the URL is assembled in a local \<open>char url[240]\<close> that starts zeroed;
  \<open>strcpy\<close> into it is \<open>strcat\<close> onto the empty string.
\<close>

definition S__setUrl :: "atcmd_env \<Rightarrow> string \<Rightarrow> string \<Rightarrow> error + (at_action list \<times> resultCode)" where
  "S__setUrl env host relative =
     bind_err (strlen host)
       (\<lambda>n. bind_err (strcat (replicate 240 NUL) (c_str host))
       (\<lambda>u1. bind_err (if length relative > 0 then strcat u1 relative else Inr u1)
       (\<lambda>url. Inr ([atcmd_configDataMode 0 (''CONNECT'' @ CRLF) (c_str url)
                       (length (c_str url)),
                     AT_QHTTPURL (length (c_str url))],
                    setUrlRslt env))))"

text \<open>
  The trailer handling of \<open>S__httpGET\<close> (from the wait for the \<open>+QHTTPGET\<close> trailer to
  the statement before \<open>atcmd_close\<close>).
\<close>

definition getTrailer :: "atcmd_env \<Rightarrow> httpCtrl \<Rightarrow> error + httpCtrl" where
  "getTrailer env httpCtrl =
     (if trailerRslt env = resultCode__success \<and> trailerValue env = 0 then
        bind_err (S__parseResponseForHttpStatus httpCtrl (trailerResponse env) (trailerBehind env))
          (\<lambda>(st, c1).
             let c2 = c1\<lparr>httpStatus := st\<rparr>
             in if httpStatus c2 \<ge> resultCode__success \<and> httpStatus c2 \<le> resultCode__successMax
                then Inr (c2\<lparr>requestState := httpState_requestComplete\<rparr>)
                else Inr c2)
      else Inr (httpCtrl\<lparr>requestState := httpState_idle,
                          httpStatus := word_of_int (trailerValue env)\<rparr>))"

text \<open>
  The trailer handling shared, character for character, by \<open>S__httpPOST\<close> and
  \<open>http_postFile\<close>.
\<close>

definition postTrailer :: "atcmd_env \<Rightarrow> httpCtrl \<Rightarrow> error + httpCtrl" where
  "postTrailer env httpCtrl =
     (if trailerRslt env = resultCode__success then
        (if trailerRslt env = resultCode__success \<and> trailerValue env = 0 then
           bind_err (S__parseResponseForHttpStatus httpCtrl (trailerResponse env) (trailerBehind env))
             (\<lambda>(st, c1).
                let c2 = c1\<lparr>httpStatus := st\<rparr>
                in if httpStatus c2 \<ge> resultCode__success \<and> httpStatus c2 \<le> resultCode__successMax
                   then Inr (c2\<lparr>requestState := httpState_requestComplete\<rparr>)
                   else Inr c2)
         else Inr (httpCtrl\<lparr>requestState := httpState_idle, httpStatus := trailerRslt env\<rparr>))
      else Inr (httpCtrl\<lparr>httpStatus := resultCode__internalError\<rparr>))"

text \<open>
  The end of each request function, \<open>atcmd_close(); return httpCtrl->httpStatus;\<close>,
  after the actions \<open>acts\<close> and the trailer handling.
\<close>

definition closeAndReturn :: "at_action list \<Rightarrow> error + httpCtrl \<Rightarrow> request_outcome" where
  "closeAndReturn acts r =
     (case r of
        Inl e \<Rightarrow> Inl (e, acts)
      | Inr c \<Rightarrow> Inr (httpStatus c, c, acts @ [atcmd_close]))"

text \<open>
  The steps the three request functions run, in the same words, between taking the lock
  and invoking the method: the optional \<open>responseheader\<close> configuration (its argument
  is the control's field, the parameter only gates it), the TLS context and the URL.
  The result is a fault, the early return (the failed result and the actions so far,
  closed), or the actions issued.
\<close>

definition configureAndSetUrl ::
  "atcmd_env \<Rightarrow> httpCtrl \<Rightarrow> string \<Rightarrow> bool
     \<Rightarrow> (error \<times> at_action list) + ((resultCode \<times> at_action list) + at_action list)" where
  "configureAndSetUrl env httpCtrl relativeUrl returnResponseHdrsArg =
     (let a1 = (if returnResponseHdrsArg
                then [AT_QHTTPCFG_responseheader (returnResponseHdrs httpCtrl)] else [])
      in if returnResponseHdrsArg \<and> rspHdrCfgRslt env \<noteq> resultCode__success
         then Inr (Inl (rspHdrCfgRslt env, a1 @ [atcmd_close]))
         else
           let a2 = a1 @ (if useTls httpCtrl then [AT_QHTTPCFG_sslctxid (dataCntxt httpCtrl)] else [])
           in if useTls httpCtrl \<and> sslCfgRslt env \<noteq> resultCode__success
              then Inr (Inl (sslCfgRslt env, a2 @ [atcmd_close]))
              else
                (case S__setUrl env (hostUrl httpCtrl) relativeUrl of
                   Inl e \<Rightarrow> Inl (e, a2)
                 | Inr (a3, rslt) \<Rightarrow>
                     if rslt \<noteq> resultCode__success
                     then Inr (Inl (rslt, a2 @ a3 @ [atcmd_close]))
                     else Inr (Inr (a2 @ a3))))"

text \<open>
  \<open>S__httpGET\<close>.  The branch taken when \<open>customRequest\<close> is \<open>NULL\<close> or has no headers
  configures the request header, and then reads \<open>customRequest->requestBuffer\<close> and
  \<open>customRequest->headersLen\<close> for the data-mode configuration and the GET command:
  with \<open>customRequest\<close> \<open>NULL\<close> that read is a fault.
\<close>

definition S__httpGET ::
  "atcmd_env \<Rightarrow> httpCtrl \<Rightarrow> string \<Rightarrow> httpRequest option \<Rightarrow> bool \<Rightarrow> request_outcome" where
  "S__httpGET env httpCtrl0 relativeUrl customRequest returnResponseHdrsArg =
     (let httpCtrl = httpCtrl0\<lparr>requestState := httpState_idle,
                               httpStatus := resultCode__unknown,
                               requestType := ''GET''\<rparr>
      in if lockAcquired env then
           (case configureAndSetUrl env httpCtrl relativeUrl returnResponseHdrsArg of
              Inl fault \<Rightarrow> Inl fault
            | Inr (Inl (rslt, acts)) \<Rightarrow> Inr (rslt, httpCtrl, acts)
            | Inr (Inr acts) \<Rightarrow>
                if (case customRequest of None \<Rightarrow> True | Some rq \<Rightarrow> headersLen rq = 0) then
                  (if rqstHdrCfgRslt env \<noteq> resultCode__success
                   then Inr (rqstHdrCfgRslt env, httpCtrl,
                             acts @ [AT_QHTTPCFG_requestheader, atcmd_close])
                   else
                     (case customRequest of
                        None \<Rightarrow> Inl (NullDeref, acts @ [AT_QHTTPCFG_requestheader])
                      | Some rq \<Rightarrow>
                          closeAndReturn
                            (acts @
                             [AT_QHTTPCFG_requestheader,
                              atcmd_configDataMode (dataCntxt httpCtrl) ''CONNECT''
                                (requestBuffer rq) (unat (headersLen rq)),
                              AT_QHTTPGET_hdrs (timeoutSec httpCtrl) (unat (headersLen rq))])
                            (getTrailer env httpCtrl)))
                else
                  closeAndReturn
                    (acts @ [AT_QHTTPGET (PERIOD_FROM_SECONDS (timeoutSec httpCtrl))])
                    (getTrailer env httpCtrl))
         else Inr (resultCode__timeout, httpCtrl, []))"

definition http_get :: "atcmd_env \<Rightarrow> httpCtrl \<Rightarrow> string \<Rightarrow> bool \<Rightarrow> request_outcome" where
  "http_get env httpCtrl relativeUrl returnResponseHdrsArg =
     S__httpGET env httpCtrl relativeUrl None returnResponseHdrsArg"

definition http_getCustomRequest ::
  "atcmd_env \<Rightarrow> httpCtrl \<Rightarrow> string \<Rightarrow> httpRequest \<Rightarrow> bool \<Rightarrow> request_outcome" where
  "http_getCustomRequest env httpCtrl relativeUrl customRequest returnResponseHdrsArg =
     S__httpGET env httpCtrl relativeUrl (Some customRequest) returnResponseHdrsArg"

text \<open>
  The Content-Length fix-up of \<open>S__httpPOST\<close>:
  \<^verbatim>\<open>char contentLengthVal[5];\<close>
  \<^verbatim>\<open>snprintf(contentLengthVal, sizeof(contentLengthVal), "%5d", customRequest->contentLen);\<close>
  \<^verbatim>\<open>char* contentLengthPtr = customRequest->requestBuffer + customRequest->headersLen - 9;\<close>
  \<^verbatim>\<open>memcpy(contentLengthPtr, contentLengthVal, 5);\<close>
  \<open>snprintf\<close> with size \<open>n\<close> stores at most \<open>n - 1\<close> characters of the formatted text and
  then the terminator.
\<close>

fun dec :: "nat \<Rightarrow> string" where
  "dec n = (if n < 10 then [char_of (48 + n)] else dec (n div 10) @ [char_of (48 + n mod 10)])"

declare dec.simps [simp del]

definition fmt_5d :: "nat \<Rightarrow> string" where
  "fmt_5d n = replicate (5 - length (dec n)) (CHR '' '') @ dec n"

definition snprintf_5d :: "nat \<Rightarrow> nat \<Rightarrow> string" where
  "snprintf_5d sz n = take (sz - 1) (fmt_5d n) @ [NUL]"

definition fixupContentLength :: "httpRequest \<Rightarrow> error + httpRequest" where
  "fixupContentLength customRequest =
     (let contentLengthVal = snprintf_5d 5 (unat (contentLen customRequest))
      in if unat (headersLen customRequest) < 9 then Inl BufferOverrun
         else
           bind_err (memcpy (requestBuffer customRequest)
                       (unat (headersLen customRequest) - 9) (take 5 contentLengthVal))
             (\<lambda>b. Inr (customRequest\<lparr>requestBuffer := b\<rparr>)))"

text \<open>
  \<open>S__httpPOST\<close>.  \<open>postData\<close> is \<open>None\<close> for the \<open>NULL\<close> that
  \<open>http_postCustomRequest\<close> passes; \<open>postDataSz\<close> is not used by the source.  Both
  branches take \<open>strlen(postData)\<close>: with \<open>postData\<close> \<open>NULL\<close> that is a fault, in the
  custom-request branch after the fix-up and the data-mode configuration.
\<close>

definition S__httpPOST ::
  "atcmd_env \<Rightarrow> httpCtrl \<Rightarrow> string \<Rightarrow> httpRequest option \<Rightarrow> string option \<Rightarrow> 16 word \<Rightarrow> bool
     \<Rightarrow> request_outcome" where
  "S__httpPOST env httpCtrl0 relativeUrl customRequest postData postDataSz returnResponseHdrsArg =
     (let httpCtrl = httpCtrl0\<lparr>requestState := httpState_idle,
                               httpStatus := resultCode__unknown,
                               requestType := ''POST''\<rparr>
      in if lockAcquired env then
           (case configureAndSetUrl env httpCtrl relativeUrl returnResponseHdrsArg of
              Inl fault \<Rightarrow> Inl fault
            | Inr (Inl (rslt, acts)) \<Rightarrow> Inr (rslt, httpCtrl, acts)
            | Inr (Inr acts) \<Rightarrow>
                (case customRequest of
                   Some rq \<Rightarrow>
                     if rqstHdrCfgRslt env \<noteq> resultCode__success
                     then Inr (rqstHdrCfgRslt env, httpCtrl,
                               acts @ [AT_QHTTPCFG_requestheader, atcmd_close])
                     else
                       (case fixupContentLength rq of
                          Inl e \<Rightarrow> Inl (e, acts @ [AT_QHTTPCFG_requestheader])
                        | Inr rq' \<Rightarrow>
                            let dataLen = headersLen rq' + contentLen rq';
                                acts1 = acts @
                                  [AT_QHTTPCFG_requestheader,
                                   atcmd_configDataMode (dataCntxt httpCtrl) ''CONNECT''
                                     (requestBuffer rq') (unat dataLen)]
                            in (case postData of
                                  None \<Rightarrow> Inl (NullDeref, acts1)
                                | Some d \<Rightarrow>
                                    closeAndReturn
                                      (acts1 @ [AT_QHTTPPOST (length d) (timeoutSec httpCtrl)])
                                      (postTrailer env httpCtrl)))
                 | None \<Rightarrow>
                     (case postData of
                        None \<Rightarrow> Inl (NullDeref, acts)
                      | Some d \<Rightarrow>
                          let dataLength = length d mod 65536
                          in closeAndReturn
                               (acts @
                                [atcmd_configDataMode (dataCntxt httpCtrl) ''CONNECT''
                                   d dataLength,
                                 AT_QHTTPPOST (length d) (timeoutSec httpCtrl)])
                               (postTrailer env httpCtrl))))
         else Inr (resultCode__timeout, httpCtrl, []))"

definition http_post ::
  "atcmd_env \<Rightarrow> httpCtrl \<Rightarrow> string \<Rightarrow> string \<Rightarrow> 16 word \<Rightarrow> bool \<Rightarrow> request_outcome" where
  "http_post env httpCtrl relativeUrl postData postDataSz returnResponseHdrsArg =
     S__httpPOST env httpCtrl relativeUrl None (Some postData) postDataSz returnResponseHdrsArg"

definition http_postCustomRequest ::
  "atcmd_env \<Rightarrow> httpCtrl \<Rightarrow> string \<Rightarrow> httpRequest \<Rightarrow> bool \<Rightarrow> request_outcome" where
  "http_postCustomRequest env httpCtrl relativeUrl customRequest returnResponseHdrsArg =
     S__httpPOST env httpCtrl relativeUrl (Some customRequest) None 0 returnResponseHdrsArg"

text \<open>\<open>http_postFile\<close>.\<close>

definition http_postFile ::
  "atcmd_env \<Rightarrow> httpCtrl \<Rightarrow> string \<Rightarrow> string \<Rightarrow> bool \<Rightarrow> request_outcome" where
  "http_postFile env httpCtrl0 relativeUrl filename returnResponseHdrsArg =
     (let httpCtrl = httpCtrl0\<lparr>requestState := httpState_idle,
                               httpStatus := resultCode__unknown,
                               requestType := ''POST''\<rparr>
      in if lockAcquired env then
           (case configureAndSetUrl env httpCtrl relativeUrl returnResponseHdrsArg of
              Inl fault \<Rightarrow> Inl fault
            | Inr (Inl (rslt, acts)) \<Rightarrow> Inr (rslt, httpCtrl, acts)
            | Inr (Inr acts) \<Rightarrow>
                if rqstHdrCfgRslt env \<noteq> resultCode__success
                then Inr (rqstHdrCfgRslt env, httpCtrl,
                          acts @ [AT_QHTTPCFG_requestheader, atcmd_close])
                else
                  closeAndReturn
                    (acts @ [AT_QHTTPCFG_requestheader, atcmd_reset, AT_QHTTPPOSTFILE filename])
                    (postTrailer env httpCtrl))
         else Inr (resultCode__timeout, httpCtrl, []))"

section \<open>PageStreamPump\<close>

text \<open>
  Modelled from the spec: the ring-buffer primitive (occupancy, pattern search, bulk
  pop, zero-copy block pop and finalize) is an external collaborator whose code is not
  among the sources.  The receive buffer is modelled by its occupied bytes in arrival
  order.  \<open>bbffr_find\<close> returns the index of the first occurrence of the pattern, or the
  reserved index \<open>BBFFR_NOTFOUND\<close> that \<open>BBFFR_ISFOUND\<close> and \<open>BBFFR_ISNOTFOUND\<close> compare
  with; \<open>bbffr_pop\<close> and \<open>bbffr_popBlock\<close> remove up to the requested number of bytes
  from the front.
\<close>

definition BBFFR_NOTFOUND :: "16 word" where
  "BBFFR_NOTFOUND = 0xFFFF"

fun sublist_index :: "string \<Rightarrow> string \<Rightarrow> nat option" where
  "sublist_index needle [] = (if needle = [] then Some 0 else None)"
| "sublist_index needle (c # cs) =
     (if prefix needle (c # cs) then Some 0 else map_option Suc (sublist_index needle cs))"

definition bbffr_find :: "string \<Rightarrow> string \<Rightarrow> 16 word" where
  "bbffr_find rx needle =
     (case sublist_index needle rx of None \<Rightarrow> BBFFR_NOTFOUND | Some i \<Rightarrow> of_nat i)"

definition bbffr_getOccupied :: "string \<Rightarrow> 16 word" where
  "bbffr_getOccupied rx = of_nat (length rx)"

definition bbffr_pop :: "string \<Rightarrow> nat \<Rightarrow> string \<times> string" where
  "bbffr_pop rx n = (take n rx, drop n rx)"

definition bbffr_popBlock :: "string \<Rightarrow> nat \<Rightarrow> string \<times> string" where
  "bbffr_popBlock rx n = (take n rx, drop n rx)"

text \<open>
  The state the handler works on: the receive buffer, the handler's local
  \<open>char wrkBffr[32]\<close>, the calls made to the application's receive callback (block and
  final-chunk flag, in order), and \<open>inbound\<close>: the bytes the inbound transport adds to
  the receive buffer while the handler is running, one entry per later pass of its loop
  (the handler itself never yields).
\<close>

record pump =
  rxBffr :: string
  wrkBffr :: string
  appRecv :: "(string \<times> bool) list"
  inbound :: "string list"

definition trailerMarker :: string where
  "trailerMarker = CRLF @ ''OK'' @ CRLF @ CRLF"

text \<open>
  One pass of the body of the \<open>do ... while (true)\<close> loop of \<open>S__httpRxHndlr\<close>:
  \<open>Inl\<close> is a \<open>return\<close> (or a fault), \<open>Inr\<close> the state with which the loop goes
  round again.  \<open>occupiedCnt\<close> and \<open>readTimeout\<close> are computed by the source and not
  used.  \<open>sizeof("+QHTTPREAD: ")\<close> is 13; when \<open>strstr\<close> finds no \<open>+QHTTPREAD: \<close> in
  the terminated work buffer it returns \<open>NULL\<close>, and \<open>strtol\<close> reads from \<open>NULL + 13\<close>.
\<close>

definition rxPass :: "httpCtrl \<Rightarrow> pump \<Rightarrow> ((error + resultCode) \<times> pump) + pump" where
  "rxPass httpCtrl p =
     (let trailerIndx = bbffr_find (rxBffr p) trailerMarker;
          reqstBlockSz = min trailerIndx (defaultBlockSz httpCtrl);
          p1 = (if bbffr_getOccupied (rxBffr p) \<ge> reqstBlockSz
                then (let (block, rx') = bbffr_popBlock (rxBffr p) (unat reqstBlockSz)
                      in p\<lparr>rxBffr := rx',
                           appRecv := appRecv p @ [(block, trailerIndx \<noteq> BBFFR_NOTFOUND)]\<rparr>)
                else p)
      in if trailerIndx \<noteq> BBFFR_NOTFOUND then
           (case strlen (wrkBffr p1) of
              Inl e \<Rightarrow> Inl (Inl e, p1)
            | Inr offset \<Rightarrow>
                (let (bytes, rx'') = bbffr_pop (rxBffr p1) (32 - offset);
                     wrk = take offset (wrkBffr p1) @ bytes @
                           drop (offset + length bytes) (wrkBffr p1);
                     p2 = p1\<lparr>rxBffr := rx'', wrkBffr := wrk\<rparr>
                 in if LF \<in> set (c_str wrk) then
                      (case sublist_index ''+QHTTPREAD: '' (c_str wrk) of
                         None \<Rightarrow>
                           Inl (Inl (if NUL \<in> set wrk then NullDeref else BufferOverrun), p2)
                       | Some i \<Rightarrow>
                           (case strtol_arr (drop (i + 13) wrk) of
                              Inl e \<Rightarrow> Inl (Inl e, p2)
                            | Inr v \<Rightarrow>
                                (let errVal = (word_of_int v :: 16 word)
                                 in if errVal = 0
                                    then Inl (Inr resultCode__success, p2)
                                    else Inl (Inr errVal, p2))))
                    else if NUL \<in> set wrk then Inr p2
                    else Inl (Inl BufferOverrun, p2)))
         else Inr p1)"

definition deliver :: "pump \<Rightarrow> pump" where
  "deliver p =
     (case inbound p of
        [] \<Rightarrow> p
      | b # bs \<Rightarrow> p\<lparr>rxBffr := rxBffr p @ b, inbound := bs\<rparr>)"

text \<open>The loop: \<open>None\<close> is a run that never leaves it.\<close>

partial_function (option) rxLoop :: "httpCtrl \<Rightarrow> pump \<Rightarrow> ((error + resultCode) \<times> pump) option" where
  "rxLoop httpCtrl p =
     (case rxPass httpCtrl p of
        Inl r \<Rightarrow> Some r
      | Inr p' \<Rightarrow> rxLoop httpCtrl (deliver p'))"

declare rxLoop.simps [code]

text \<open>
  \<open>S__httpRxHndlr\<close>.  \<open>popCnt\<close> is a \<open>uint8_t\<close>: the index found is truncated to eight
  bits before \<open>BBFFR_ISNOTFOUND\<close> compares it, promoted again, with the 16-bit
  reserved index.  The line up to the first CR and the byte after it are popped into
  \<open>wrkBffr\<close>, which is then cleared.
\<close>

definition S__httpRxHndlr :: "httpCtrl \<Rightarrow> pump \<Rightarrow> ((error + resultCode) \<times> pump) option" where
  "S__httpRxHndlr httpCtrl p =
     (let popCnt = (ucast (bbffr_find (rxBffr p) [CR]) :: 8 word)
      in if (ucast popCnt :: 16 word) = BBFFR_NOTFOUND
         then Some (Inr resultCode__internalError, p)
         else
           (let (bytes, rx') = bbffr_pop (rxBffr p) (unat popCnt + 2)
            in if length bytes > 32
               then Some (Inl BufferOverrun, p\<lparr>rxBffr := rx'\<rparr>)
               else rxLoop httpCtrl (p\<lparr>rxBffr := rx', wrkBffr := replicate 32 NUL\<rparr>)))"

section \<open>Notions used in the statements\<close>

text \<open>The fifth character of a URL is \<open>s\<close> or \<open>S\<close>.\<close>

definition fifthIsS :: "string \<Rightarrow> bool" where
  "fifthIsS url = (take 1 (drop 4 url) = ''s'' \<or> take 1 (drop 4 url) = ''S'')"

text \<open>
  The number a field of decimal digits denotes, and the status field of a trailer tail
  \<open><err>,<httpStatus>[,<contentLength>]\<close>: the decimal digits that follow the first
  comma; \<open>afterStatus\<close> is the rest of the tail behind them.  \<open>statusFieldOk\<close>: the
  tail has a comma, its status field is a decimal number that the 16-bit \<open>httpStatus\<close>
  can hold, and, when the tail ends with the status field, the bytes behind the tail
  in the response buffer end the scan for the content length inside that buffer.
\<close>

definition decimal_value :: "string \<Rightarrow> nat" where
  "decimal_value ds = foldl (\<lambda>a c. 10 * a + (of_char c - 48)) 0 ds"

definition statusField :: "string \<Rightarrow> string" where
  "statusField response =
     takeWhile isdigit (drop 1 (dropWhile (\<lambda>c. c \<noteq> CHR '','') response))"

definition afterStatus :: "string \<Rightarrow> string" where
  "afterStatus response =
     dropWhile isdigit (drop 1 (dropWhile (\<lambda>c. c \<noteq> CHR '','') response))"

definition statusFieldOk :: "string \<Rightarrow> string \<Rightarrow> bool" where
  "statusFieldOk response behind =
     (CHR '','' \<in> set response \<and> statusField response \<noteq> [] \<and>
      decimal_value (statusField response) < 65536 \<and>
      (afterStatus response = [] \<longrightarrow> strtol_arr behind \<noteq> Inl BufferOverrun))"

text \<open>
  The command sequence reaches the wait for the trailer: the lock is obtained, each
  configuration command that is issued succeeds, and the URL fits the 240-byte array of
  \<open>S__setUrl\<close> and is accepted.  \<open>trailerErrZero\<close>: the trailer is awaited with success
  and its \<open>err\<close> value is 0.
\<close>

definition sequenceSucceeds :: "atcmd_env \<Rightarrow> httpCtrl \<Rightarrow> string \<Rightarrow> bool \<Rightarrow> bool" where
  "sequenceSucceeds env c relativeUrl hdrs =
     (lockAcquired env \<and>
      (hdrs \<longrightarrow> rspHdrCfgRslt env = resultCode__success) \<and>
      (useTls c \<longrightarrow> sslCfgRslt env = resultCode__success) \<and>
      NUL \<in> set (hostUrl c) \<and> length (c_str (hostUrl c)) + length relativeUrl < 240 \<and>
      setUrlRslt env = resultCode__success)"

definition trailerErrZero :: "atcmd_env \<Rightarrow> bool" where
  "trailerErrZero env = (trailerRslt env = resultCode__success \<and> trailerValue env = 0)"

text \<open>
  What C1 asks of the outcome of a request: the call returns, the recorded \<open>httpStatus\<close>
  is the trailer's status, \<open>requestState\<close> is \<open>RequestComplete\<close> exactly for a status in
  200..299, and then \<open>pageRemaining\<close> equals \<open>pageSize\<close>.
\<close>

definition statusRecorded :: "nat \<Rightarrow> request_outcome \<Rightarrow> bool" where
  "statusRecorded status r =
     (case r of
        Inl fault \<Rightarrow> False
      | Inr (rc, c', acts) \<Rightarrow>
          httpStatus c' = of_nat status \<and>
          (requestState c' = httpState_requestComplete \<longleftrightarrow> 200 \<le> status \<and> status \<le> 299) \<and>
          (requestState c' = httpState_requestComplete \<longrightarrow> pageRemaining c' = pageSize c'))"

text \<open>
  Neither a forwardable block nor the terminal marker is available in the receive
  buffer: the marker is not found, and fewer bytes are buffered than the block size
  (which, without a marker, is \<open>defaultBlockSz\<close>).
\<close>

definition starved :: "httpCtrl \<Rightarrow> string \<Rightarrow> bool" where
  "starved httpCtrl rx =
     (bbffr_find rx trailerMarker = BBFFR_NOTFOUND \<and>
      bbffr_getOccupied rx < defaultBlockSz httpCtrl)"

text \<open>The code a call returned and the control it left behind.\<close>

definition returned :: "request_outcome \<Rightarrow> resultCode option" where
  "returned r = (case r of Inl fault \<Rightarrow> None | Inr (rc, c, acts) \<Rightarrow> Some rc)"

definition ctrlAfter :: "request_outcome \<Rightarrow> httpCtrl option" where
  "ctrlAfter r = (case r of Inl fault \<Rightarrow> None | Inr (rc, c, acts) \<Rightarrow> Some c)"

section \<open>Concrete scenarios\<close>

text \<open>Inputs at which the statements below are evaluated.\<close>

definition ctrl0 :: httpCtrl where
  "ctrl0 = \<lparr>dataCntxt = 1, hostUrl = ''http://h'' @ replicate 8 NUL, hostPort = 8080,
            useTls = False, returnResponseHdrs = False, timeoutSec = 60, defaultBlockSz = 4,
            requestType = ''POST'', requestState = httpState_requestComplete,
            httpStatus = 200, pageSize = 6, pageRemaining = 6\<rparr>"

definition env0 :: atcmd_env where
  "env0 = \<lparr>lockAcquired = True, rspHdrCfgRslt = 200, sslCfgRslt = 200, setUrlRslt = 200,
           rqstHdrCfgRslt = 200, trailerRslt = 200, trailerValue = 0,
           trailerResponse = ''0,200,120'', trailerBehind = replicate 8 NUL\<rparr>"

definition envLocked :: atcmd_env where
  "envLocked = env0\<lparr>lockAcquired := False\<rparr>"

definition envWide :: atcmd_env where
  "envWide = env0\<lparr>trailerResponse := ''0,65736,10''\<rparr>"

definition rqHdrs :: httpRequest where
  "rqHdrs = \<lparr>requestBuffer = ''POST /p HTTP/1.1'' @ CRLF @ ''Host: h'' @ CRLF @ replicate 133 NUL,
             requestBuffersz = 160, contentLen = 0, headersLen = 0\<rparr>"

definition rqPosted :: httpRequest where
  "rqPosted = \<lparr>requestBuffer = ''POST /p HTTP/1.1'' @ CRLF @ ''Host: h'' @ CRLF @
                 ''Content-Length:     0'' @ CRLF @ CRLF @ ''hello'' @ replicate 103 NUL,
               requestBuffersz = 160, contentLen = 5, headersLen = 52\<rparr>"

definition rqSmall :: httpRequest where
  "rqSmall = \<lparr>requestBuffer = ''POST /p HTTP/1.1'' @ CRLF @ ''Host: h'' @ CRLF @ replicate 37 NUL,
              requestBuffersz = 64, contentLen = 0, headersLen = 0\<rparr>"

definition ctrl16 :: httpCtrl where
  "ctrl16 = ctrl0\<lparr>defaultBlockSz := 16\<rparr>"

definition pumpBuffered :: pump where
  "pumpBuffered = \<lparr>rxBffr = ''CONNECT'' @ CRLF @ ''0123456789abcdefghij'' @ trailerMarker @
                            ''+QHTTPREAD: 0'' @ CRLF,
                   wrkBffr = replicate 32 NUL, appRecv = [], inbound = []\<rparr>"

definition pumpStarved :: pump where
  "pumpStarved = \<lparr>rxBffr = ''CONNECT'' @ CRLF @ ''abc'',
                  wrkBffr = replicate 32 NUL, appRecv = [], inbound = []\<rparr>"

section \<open>Verified properties\<close>

subsection \<open>ConnectionConfig\<close>

lemma strncpy_nth4:
  assumes "4 < n"
  shows "strncpy n url ! 4 = (if 4 < length url then url ! 4 else NUL)"
  using assms by (auto simp: strncpy_def nth_append)

lemma take1_drop4:
  "c \<noteq> NUL \<Longrightarrow> ((if 4 < length url then url ! 4 else NUL) = c) = (take 1 (drop 4 url) = [c])"
  by (cases "drop 4 url") (auto dest: nth_via_drop)

text \<open>
  C10.  Whenever the assertions of \<open>http_setConnection\<close> hold (the URL starts with
  \<open>HTTP\<close> or \<open>http\<close>, the port is 0 or at least 80), the call returns a control whose
  \<open>hostPort\<close> is 443 or 80 (by the fifth character of the URL) when the port argument
  is 0, and is the value it had before the call for every other port argument: the
  port passed in is not stored.
\<close>

theorem setConnection_hostPort:
  assumes "take 4 url = ''HTTP'' \<or> take 4 url = ''http''"
    and "port = 0 \<or> 80 \<le> port"
    and "4 < hostUrlSz"
  shows "\<exists>c'. http_setConnection hostUrlSz c url port = Inr c' \<and>
           hostPort c' =
             (if port = 0 then (if fifthIsS url then 443 else 80) else hostPort c)"
proof -
  have s: "(strncpy hostUrlSz url ! 4 = CHR ''S'') = (take 1 (drop 4 url) = ''S'')"
       "(strncpy hostUrlSz url ! 4 = CHR ''s'') = (take 1 (drop 4 url) = ''s'')"
    using assms(3) by (simp_all add: strncpy_nth4 take1_drop4 NUL_def)
  show ?thesis
    using assms s by (auto simp: http_setConnection_def Let_def fifthIsS_def)
qed

theorem setConnection_hostPort_witness:
  "(\<exists>c'. http_setConnection 16 ctrl0 ''https://h'' 9443 = Inr c' \<and> hostPort c' = 8080) \<and>
   (\<exists>c'. http_setConnection 16 ctrl0 ''https://h'' 0 = Inr c' \<and> hostPort c' = 443) \<and>
   (\<exists>c'. http_setConnection 16 ctrl0 ''http://h'' 0 = Inr c' \<and> hostPort c' = 80)"
  using setConnection_hostPort [of "''https://h''" 9443 16 ctrl0]
    setConnection_hostPort [of "''https://h''" 0 16 ctrl0]
    setConnection_hostPort [of "''http://h''" 0 16 ctrl0]
  by (simp add: fifthIsS_def ctrl0_def)

subsection \<open>ResponseStatusParser and the trailer step of the engine\<close>

lemma isdigit_not_isspace: "isdigit c \<Longrightarrow> \<not> isspace c"
  by (auto simp: isdigit_def isspace_def)

lemma isdigit_not_sign: "isdigit c \<Longrightarrow> c \<noteq> CHR ''-'' \<and> c \<noteq> CHR ''+'' \<and> c \<noteq> CHR '',''"
  by (auto simp: isdigit_def)

lemma strtol_digits_append:
  assumes "list_all isdigit ds" and "rest = [] \<or> \<not> isdigit (hd rest)" and "0 \<le> acc"
  shows "strtol_digits acc (ds @ rest) =
           (int (foldl (\<lambda>a c. 10 * a + (of_char c - 48)) (nat acc) ds), rest)"
  using assms
proof (induction ds arbitrary: acc)
  case Nil
  then show ?case by (cases rest) auto
next
  case (Cons c ds)
  have d: "isdigit c" and ds: "list_all isdigit ds" using Cons.prems(1) by simp_all
  have ge: "0 \<le> acc * 10 + digit_val c"
    using d Cons.prems(3) by (simp add: isdigit_def digit_val_def)
  have n: "nat (acc * 10 + digit_val c) = 10 * nat acc + (of_char c - 48)"
    using d Cons.prems(3) unfolding isdigit_def digit_val_def by (simp add: nat_add_distrib nat_mult_distrib) linarith
  show ?case
    using d Cons.IH [OF ds Cons.prems(2) ge] by (simp add: n)
qed

lemma strtol_decimal:
  assumes "ds \<noteq> []" and "list_all isdigit ds" and "rest = [] \<or> \<not> isdigit (hd rest)"
    and "decimal_value ds < 2 ^ 31"
  shows "strtol (ds @ rest) = (int (decimal_value ds), rest)"
proof -
  obtain c cs where ds: "ds = c # cs" using assms(1) by (cases ds) auto
  have d: "isdigit c" using assms(2) ds by simp
  have sp: "dropWhile isspace (ds @ rest) = ds @ rest"
    using d ds by (simp add: isdigit_not_isspace)
  have sg: "take 1 (ds @ rest) \<noteq> ''-''" "take 1 (ds @ rest) \<noteq> ''+''"
    using d ds isdigit_not_sign [of c] by auto
  have dg: "strtol_digits 0 (ds @ rest) = (int (decimal_value ds), rest)"
    using strtol_digits_append [OF assms(2) assms(3), of 0] by (simp add: decimal_value_def)
  have cl: "clamp_long (int (decimal_value ds)) = int (decimal_value ds)"
    using assms(4) by (simp add: clamp_long_def)
  show ?thesis
    using sp sg dg cl d ds by (simp add: strtol_def Let_def)
qed

lemma strchr_first:
  assumes "c \<notin> set pre"
  shows "strchr (pre @ c # rest) c = Some (c # rest)"
  using assms by (auto simp: strchr_def dropWhile_append3 Let_def)

lemma statusField_split:
  assumes "CHR '','' \<in> set response"
  shows "\<exists>err. response = err @ '','' @ statusField response @ afterStatus response \<and>
           CHR '','' \<notin> set err"
proof -
  let ?P = "\<lambda>c. c \<noteq> CHR '',''"
  let ?r = "dropWhile ?P response"
  have ne: "?r \<noteq> []" using assms by (simp add: dropWhile_eq_Nil_conv)
  have "\<not> ?P (hd ?r)" using ne by (rule hd_dropWhile)
  then have r: "?r = CHR '','' # drop 1 ?r" using ne by (cases ?r) auto
  have "response = takeWhile ?P response @ ?r" by simp
  also have "\<dots> = takeWhile ?P response @ '','' @ drop 1 ?r" using r by simp
  also have "\<dots> = takeWhile ?P response @ '','' @ statusField response @ afterStatus response"
    by (simp add: statusField_def afterStatus_def)
  finally have e: "response = takeWhile ?P response @ '','' @ statusField response @
                      afterStatus response" .
  have n: "CHR '','' \<notin> set (takeWhile ?P response)"
    by (auto dest: set_takeWhileD)
  show ?thesis
    using e n by blast
qed

lemma statusField_digits:
  "list_all isdigit (statusField response)"
  "afterStatus response = [] \<or> \<not> isdigit (hd (afterStatus response))"
proof -
  show "list_all isdigit (statusField response)"
    by (auto simp: statusField_def list_all_iff dest: set_takeWhileD)
  show "afterStatus response = [] \<or> \<not> isdigit (hd (afterStatus response))"
    unfolding afterStatus_def using hd_dropWhile [of isdigit] by blast
qed

lemma parse_status:
  assumes "statusFieldOk response behind"
  shows "\<exists>ps. S__parseResponseForHttpStatus c response behind =
           Inr (of_nat (decimal_value (statusField response)),
                c\<lparr>httpStatus := of_nat (decimal_value (statusField response)),
                  pageSize := ps, pageRemaining := ps\<rparr>)"
proof -
  let ?ds = "statusField response"
  let ?rest = "afterStatus response"
  have ok: "CHR '','' \<in> set response" "?ds \<noteq> []" "decimal_value ?ds < 65536"
      "?rest = [] \<longrightarrow> strtol_arr behind \<noteq> Inl BufferOverrun"
    using assms by (simp_all add: statusFieldOk_def)
  obtain err where r: "response = err @ '','' @ ?ds @ ?rest" "CHR '','' \<notin> set err"
    using statusField_split [OF ok(1)] by blast
  have lt: "decimal_value ?ds < 2 ^ 31" using ok(3) by simp
  have "strchr (err @ CHR '','' # ?ds @ ?rest) (CHR '','') = Some (CHR '','' # ?ds @ ?rest)"
    by (rule strchr_first [OF r(2)])
  then have sc: "strchr response (CHR '','') = Some (CHR '','' # ?ds @ ?rest)"
    using r(1) by simp
  have st: "strtol (?ds @ ?rest) = (int (decimal_value ?ds), ?rest)"
    by (rule strtol_decimal [OF ok(2) statusField_digits lt])
  obtain v2 where s2: "(if ?rest = [] then strtol_arr behind
                        else Inr (fst (strtol (drop 1 ?rest)))) = Inr v2"
  proof (cases "?rest = []")
    case True
    with ok(4) obtain v where "strtol_arr behind = Inr v"
      by (auto simp: strtol_arr_def Let_def split: if_splits)
    with True that show ?thesis by simp
  next
    case False
    with that show ?thesis by simp
  qed
  show ?thesis
    using sc st s2
    by (auto simp: S__parseResponseForHttpStatus_def Let_def bind_err_def word_gt_0)
qed

lemma c_str_append_NUL: "c_str (c_str s @ NUL # t) = c_str s"
proof -
  have "\<And>x. x \<in> set (takeWhile (\<lambda>c. c \<noteq> NUL) s) \<Longrightarrow> x \<noteq> NUL"
    by (auto dest: set_takeWhileD)
  then show ?thesis
    by (simp add: c_str_def takeWhile_append2)
qed

lemma setUrl_ok:
  assumes "NUL \<in> set host" and "length (c_str host) + length relative < 240"
  shows "\<exists>acts. S__setUrl env host relative = Inr (acts, setUrlRslt env)"
proof -
  let ?u1 = "c_str host @ NUL # replicate (240 - (length (c_str host) + 1)) NUL"
  have a: "strcat (replicate 240 NUL) (c_str host) = Inr ?u1"
    using assms(2) by (simp add: strcat_def strlen_def memcpy_def bind_err_def c_str_def)
  have b: "strlen ?u1 = Inr (length (c_str host))"
    by (simp add: strlen_def c_str_append_NUL)
  have c: "\<exists>u. strcat ?u1 relative = Inr u"
    using assms(2) unfolding strcat_def b by (simp add: memcpy_def bind_err_def)
  show ?thesis
    using assms(1) a c by (auto simp: S__setUrl_def strlen_def bind_err_def)
qed

lemma configure_ok:
  assumes "sequenceSucceeds env c relativeUrl hdrs"
    and "hostUrl c' = hostUrl c" and "useTls c' = useTls c"
  shows "\<exists>acts. configureAndSetUrl env c' relativeUrl hdrs = Inr (Inr acts)"
proof -
  obtain a3 where "S__setUrl env (hostUrl c) relativeUrl = Inr (a3, resultCode__success)"
    using setUrl_ok [of "hostUrl c" relativeUrl env] assms(1)
    by (auto simp: sequenceSucceeds_def)
  then show ?thesis
    using assms by (auto simp: configureAndSetUrl_def sequenceSucceeds_def Let_def)
qed

lemma word16_range:
  assumes "n < 65536"
  shows "(resultCode__success \<le> (of_nat n :: 16 word) \<and> (of_nat n :: 16 word) \<le> resultCode__successMax)
           = (200 \<le> n \<and> n \<le> 299)"
  using assms
  by (simp add: resultCode__success_def resultCode__successMax_def word_le_nat_alt unat_of_nat)

lemma getTrailer_status:
  assumes "trailerErrZero env" and "statusFieldOk (trailerResponse env) (trailerBehind env)"
  shows "statusRecorded (decimal_value (statusField (trailerResponse env)))
           (closeAndReturn acts
              (getTrailer env (c\<lparr>requestState := httpState_idle, httpStatus := u,
                                  requestType := t\<rparr>)))"
proof -
  let ?c = "c\<lparr>requestState := httpState_idle, httpStatus := u, requestType := t\<rparr>"
  let ?ds = "statusField (trailerResponse env)"
  obtain ps where p: "S__parseResponseForHttpStatus ?c (trailerResponse env) (trailerBehind env) =
      Inr (of_nat (decimal_value ?ds),
           ?c\<lparr>httpStatus := of_nat (decimal_value ?ds), pageSize := ps, pageRemaining := ps\<rparr>)"
    using parse_status [OF assms(2)] by blast
  have lt: "decimal_value ?ds < 65536"
    using assms(2) by (simp add: statusFieldOk_def)
  show ?thesis
    using assms(1) word16_range [OF lt]
    by (simp add: getTrailer_def trailerErrZero_def p statusRecorded_def closeAndReturn_def
        bind_err_def Let_def)
qed

lemma postTrailer_status:
  assumes "trailerErrZero env" and "statusFieldOk (trailerResponse env) (trailerBehind env)"
  shows "statusRecorded (decimal_value (statusField (trailerResponse env)))
           (closeAndReturn acts
              (postTrailer env (c\<lparr>requestState := httpState_idle, httpStatus := u,
                                   requestType := t\<rparr>)))"
proof -
  let ?c = "c\<lparr>requestState := httpState_idle, httpStatus := u, requestType := t\<rparr>"
  let ?ds = "statusField (trailerResponse env)"
  obtain ps where p: "S__parseResponseForHttpStatus ?c (trailerResponse env) (trailerBehind env) =
      Inr (of_nat (decimal_value ?ds),
           ?c\<lparr>httpStatus := of_nat (decimal_value ?ds), pageSize := ps, pageRemaining := ps\<rparr>)"
    using parse_status [OF assms(2)] by blast
  have lt: "decimal_value ?ds < 65536"
    using assms(2) by (simp add: statusFieldOk_def)
  show ?thesis
    using assms(1) word16_range [OF lt]
    by (simp add: postTrailer_def trailerErrZero_def p statusRecorded_def closeAndReturn_def
        bind_err_def Let_def)
qed

lemma getCustom_status:
  assumes "sequenceSucceeds env c relativeUrl hdrs" and "trailerErrZero env"
    and "statusFieldOk (trailerResponse env) (trailerBehind env)"
    and "headersLen rq = 0 \<longrightarrow> rqstHdrCfgRslt env = resultCode__success"
  shows "statusRecorded (decimal_value (statusField (trailerResponse env)))
           (http_getCustomRequest env c relativeUrl rq hdrs)"
proof -
  let ?c = "c\<lparr>requestState := httpState_idle, httpStatus := resultCode__unknown,
               requestType := ''GET''\<rparr>"
  obtain acts where a: "configureAndSetUrl env ?c relativeUrl hdrs = Inr (Inr acts)"
    using configure_ok [OF assms(1), of ?c] by auto
  show ?thesis
    using assms(1,4) a getTrailer_status [OF assms(2,3)]
    by (simp add: http_getCustomRequest_def S__httpGET_def Let_def sequenceSucceeds_def)
qed

lemma post_status:
  assumes "sequenceSucceeds env c relativeUrl hdrs" and "trailerErrZero env"
    and "statusFieldOk (trailerResponse env) (trailerBehind env)"
  shows "statusRecorded (decimal_value (statusField (trailerResponse env)))
           (http_post env c relativeUrl postData postDataSz hdrs)"
proof -
  let ?c = "c\<lparr>requestState := httpState_idle, httpStatus := resultCode__unknown,
               requestType := ''POST''\<rparr>"
  obtain acts where a: "configureAndSetUrl env ?c relativeUrl hdrs = Inr (Inr acts)"
    using configure_ok [OF assms(1), of ?c] by auto
  show ?thesis
    using assms(1) a postTrailer_status [OF assms(2,3)]
    by (simp add: http_post_def S__httpPOST_def Let_def sequenceSucceeds_def)
qed

lemma postFile_status:
  assumes "sequenceSucceeds env c relativeUrl hdrs" and "trailerErrZero env"
    and "statusFieldOk (trailerResponse env) (trailerBehind env)"
    and "rqstHdrCfgRslt env = resultCode__success"
  shows "statusRecorded (decimal_value (statusField (trailerResponse env)))
           (http_postFile env c relativeUrl filename hdrs)"
proof -
  let ?c = "c\<lparr>requestState := httpState_idle, httpStatus := resultCode__unknown,
               requestType := ''POST''\<rparr>"
  obtain acts where a: "configureAndSetUrl env ?c relativeUrl hdrs = Inr (Inr acts)"
    using configure_ok [OF assms(1), of ?c] by auto
  show ?thesis
    using assms(1,4) a postTrailer_status [OF assms(2,3)]
    by (simp add: http_postFile_def Let_def sequenceSucceeds_def)
qed

text \<open>
  C1 (as amended).  When \<open>http_post\<close>, \<open>http_postFile\<close> or a GET issued with a custom
  request has awaited its trailer successfully with \<open>err == 0\<close>, and the trailer tail
  has a comma followed by a decimal status that fits the 16-bit \<open>httpStatus\<close>, the call
  returns with \<open>httpStatus\<close> equal to that status, \<open>requestState\<close> is \<open>RequestComplete\<close>
  if and only if the status lies in 200..299, and in that case \<open>pageRemaining\<close> equals
  \<open>pageSize\<close>.  (The \<open>requestheader\<close> configuration has to succeed where the function
  issues it on its way to the trailer: always in \<open>http_postFile\<close>, and in the GET when
  the custom request has no headers.)
\<close>

theorem trailer_status_recorded:
  assumes "sequenceSucceeds env c relativeUrl hdrs" and "trailerErrZero env"
    and "statusFieldOk (trailerResponse env) (trailerBehind env)"
  shows "statusRecorded (decimal_value (statusField (trailerResponse env)))
           (http_post env c relativeUrl postData postDataSz hdrs) \<and>
         (rqstHdrCfgRslt env = resultCode__success \<longrightarrow>
            statusRecorded (decimal_value (statusField (trailerResponse env)))
              (http_postFile env c relativeUrl filename hdrs)) \<and>
         ((headersLen rq = 0 \<longrightarrow> rqstHdrCfgRslt env = resultCode__success) \<longrightarrow>
            statusRecorded (decimal_value (statusField (trailerResponse env)))
              (http_getCustomRequest env c relativeUrl rq hdrs))"
  using getCustom_status [OF assms] post_status [OF assms] postFile_status [OF assms] by blast

lemma sequence_env0: "sequenceSucceeds env0 ctrl0 ''/path'' False"
  by (simp add: sequenceSucceeds_def env0_def ctrl0_def resultCode__success_def c_str_def NUL_def)

lemma statusField_env0:
  "statusFieldOk ''0,200,120'' b" "decimal_value (statusField ''0,200,120'') = 200"
  "statusFieldOk ''0,404'' (replicate 8 NUL)" "decimal_value (statusField ''0,404'') = 404"
  by (simp_all add: statusFieldOk_def statusField_def afterStatus_def decimal_value_def
      isdigit_def isspace_def strtol_arr_def NUL_def)

theorem trailer_status_recorded_witness:
  "statusRecorded 200 (http_post env0 ctrl0 ''/path'' ''hello'' 5 False) \<and>
   statusRecorded 200 (http_postFile env0 ctrl0 ''/path'' ''f.txt'' False) \<and>
   statusRecorded 200 (http_getCustomRequest env0 ctrl0 ''/path'' rqHdrs False) \<and>
   statusRecorded 404
     (http_post (env0\<lparr>trailerResponse := ''0,404''\<rparr>) ctrl0 ''/path'' ''hello'' 5 False)"
proof -
  have e: "trailerErrZero env0" "rqstHdrCfgRslt env0 = resultCode__success"
    by (simp_all add: trailerErrZero_def env0_def resultCode__success_def)
  have f: "statusFieldOk (trailerResponse env0) (trailerBehind env0)"
      "trailerResponse env0 = ''0,200,120''"
    using statusField_env0(1) by (simp_all add: env0_def)
  let ?e = "env0\<lparr>trailerResponse := ''0,404''\<rparr>"
  have s4: "sequenceSucceeds ?e ctrl0 ''/path'' False"
    using sequence_env0 by (simp add: sequenceSucceeds_def)
  have e4: "trailerErrZero ?e"
    using e by (simp add: trailerErrZero_def)
  have f4: "statusFieldOk (trailerResponse ?e) (trailerBehind ?e)"
    using statusField_env0(3) by (simp add: env0_def)
  show ?thesis
    using trailer_status_recorded [OF sequence_env0 e(1) f(1), of "''hello''" 5 "''f.txt''" rqHdrs]
      trailer_status_recorded [OF s4 e4 f4, of "''hello''" 5 "''f.txt''" rqHdrs] e(2)
    by (simp add: f(2) statusField_env0)
qed

lemma parse_wide: "S__parseResponseForHttpStatus c ''0,65736,10'' b =
   Inr (200, c\<lparr>httpStatus := 200, pageSize := 10, pageRemaining := 10\<rparr>)"
  by (simp add: S__parseResponseForHttpStatus_def strchr_def strtol_def isspace_def isdigit_def
      digit_val_def clamp_long_def bind_err_def Let_def)

text \<open>
  C1 as stated fails: the trailer tail \<open>0,65736,10\<close> has a comma, and its status field
  is 65736; \<open>http_post\<close> records the status 200 (65736 cut to 16 bits) and sets
  \<open>RequestComplete\<close>, although 65736 is not in 200..299.
\<close>

theorem trailer_status_counterexample:
  "sequenceSucceeds envWide ctrl0 ''/path'' False \<and> trailerErrZero envWide \<and>
   CHR '','' \<in> set (trailerResponse envWide) \<and>
   decimal_value (statusField (trailerResponse envWide)) = 65736 \<and>
   map_option httpStatus (ctrlAfter (http_post envWide ctrl0 ''/path'' ''hello'' 5 False)) =
     Some 200 \<and>
   map_option requestState (ctrlAfter (http_post envWide ctrl0 ''/path'' ''hello'' 5 False)) =
     Some httpState_requestComplete"
proof -
  let ?c = "ctrl0\<lparr>requestState := httpState_idle, httpStatus := resultCode__unknown,
                   requestType := ''POST''\<rparr>"
  have s: "sequenceSucceeds envWide ctrl0 ''/path'' False"
    using sequence_env0 by (simp add: sequenceSucceeds_def envWide_def)
  have t: "trailerErrZero envWide" "CHR '','' \<in> set (trailerResponse envWide)"
    by (simp_all add: trailerErrZero_def envWide_def env0_def resultCode__success_def)
  have d: "decimal_value (statusField (trailerResponse envWide)) = 65736"
    by (simp add: envWide_def statusField_def decimal_value_def isdigit_def)
  obtain acts where a: "configureAndSetUrl envWide ?c ''/path'' False = Inr (Inr acts)"
    using configure_ok [OF s, of ?c] by auto
  have q: "postTrailer envWide ?c =
             Inr (?c\<lparr>httpStatus := 200, pageSize := 10, pageRemaining := 10,
                      requestState := httpState_requestComplete\<rparr>)"
    using t(1)
    by (simp add: postTrailer_def trailerErrZero_def envWide_def parse_wide bind_err_def
        resultCode__success_def resultCode__successMax_def)
  have p: "ctrlAfter (http_post envWide ctrl0 ''/path'' ''hello'' 5 False) =
             Some (?c\<lparr>httpStatus := 200, pageSize := 10, pageRemaining := 10,
                       requestState := httpState_requestComplete\<rparr>)"
    using s a by (simp add: http_post_def S__httpPOST_def Let_def sequenceSucceeds_def q
        closeAndReturn_def ctrlAfter_def)
  show ?thesis
    using s t d by (simp add: p)
qed

subsection \<open>RequestEngine: the lock, the plain GET and the Content-Length fix-up\<close>

text \<open>
  C4 (as amended).  If the lock is not obtained, \<open>http_get\<close>, \<open>http_post\<close> and
  \<open>http_postFile\<close> return \<open>Timeout\<close> and issue no command; \<open>pageSize\<close>, \<open>pageRemaining\<close>
  and the connection fields keep their values, while \<open>requestState\<close>, \<open>httpStatus\<close> and
  \<open>requestType\<close> hold what the function stored on entry, before it waited for the
  lock: \<open>Idle\<close>, \<open>Unknown\<close> and the verb.
\<close>

theorem lock_timeout:
  assumes "\<not> lockAcquired env"
  shows "http_get env c relativeUrl hdrs =
           Inr (resultCode__timeout,
                c\<lparr>requestState := httpState_idle, httpStatus := resultCode__unknown,
                  requestType := ''GET''\<rparr>, []) \<and>
         http_post env c relativeUrl postData postDataSz hdrs =
           Inr (resultCode__timeout,
                c\<lparr>requestState := httpState_idle, httpStatus := resultCode__unknown,
                  requestType := ''POST''\<rparr>, []) \<and>
         http_postFile env c relativeUrl filename hdrs =
           Inr (resultCode__timeout,
                c\<lparr>requestState := httpState_idle, httpStatus := resultCode__unknown,
                  requestType := ''POST''\<rparr>, [])"
  using assms
  by (simp add: http_get_def S__httpGET_def http_post_def S__httpPOST_def http_postFile_def)

theorem lock_timeout_witness:
  "http_get envLocked ctrl0 ''/path'' False =
     Inr (resultCode__timeout,
          ctrl0\<lparr>requestState := httpState_idle, httpStatus := resultCode__unknown,
                requestType := ''GET''\<rparr>, []) \<and>
   http_post envLocked ctrl0 ''/path'' ''hello'' 5 False =
     Inr (resultCode__timeout,
          ctrl0\<lparr>requestState := httpState_idle, httpStatus := resultCode__unknown,
                requestType := ''POST''\<rparr>, []) \<and>
   http_postFile envLocked ctrl0 ''/path'' ''f.txt'' False =
     Inr (resultCode__timeout,
          ctrl0\<lparr>requestState := httpState_idle, httpStatus := resultCode__unknown,
                requestType := ''POST''\<rparr>, [])"
  using lock_timeout [of envLocked ctrl0 "''/path''" False "''hello''" 5 "''f.txt''"]
  by (simp add: envLocked_def)

text \<open>
  C4 as stated fails: with the lock unavailable, a control that was in
  \<open>RequestComplete\<close> after a POST comes back from \<open>http_get\<close> in \<open>Idle\<close> with request
  type \<open>GET\<close>.
\<close>

theorem lock_timeout_counterexample:
  "\<not> lockAcquired envLocked \<and>
   returned (http_get envLocked ctrl0 ''/path'' False) = Some resultCode__timeout \<and>
   requestState ctrl0 = httpState_requestComplete \<and>
   map_option requestState (ctrlAfter (http_get envLocked ctrl0 ''/path'' False)) =
     Some httpState_idle \<and>
   requestType ctrl0 = ''POST'' \<and>
   map_option requestType (ctrlAfter (http_get envLocked ctrl0 ''/path'' False)) = Some ''GET''"
  by (simp add: http_get_def S__httpGET_def envLocked_def ctrl0_def returned_def ctrlAfter_def)

text \<open>
  Every \<open>http_get\<close> that reaches the invoke step stops, after the \<open>requestheader\<close>
  configuration, at the read through the absent request.
\<close>

lemma get_faults_at_absent_request:
  assumes "sequenceSucceeds env c relativeUrl hdrs"
    and "rqstHdrCfgRslt env = resultCode__success"
  shows "\<exists>acts. http_get env c relativeUrl hdrs =
           Inl (NullDeref, acts @ [AT_QHTTPCFG_requestheader])"
proof -
  let ?c = "c\<lparr>requestState := httpState_idle, httpStatus := resultCode__unknown,
               requestType := ''GET''\<rparr>"
  obtain acts where a: "configureAndSetUrl env ?c relativeUrl hdrs = Inr (Inr acts)"
    using configure_ok [OF assms(1), of ?c] by auto
  show ?thesis
    using assms a
    by (simp add: http_get_def S__httpGET_def Let_def sequenceSucceeds_def)
qed

text \<open>
  C9.  \<open>http_get\<close> passes \<open>NULL\<close> for the custom request, and the branch taken for a
  \<open>NULL\<close> request is the one that reads \<open>customRequest->requestBuffer\<close> and
  \<open>customRequest->headersLen\<close>: with the lock obtained and every command succeeding,
  the call sets the URL, configures the request header and then reads through the
  absent request, where it stops.
\<close>

theorem get_reads_absent_request:
  "http_get env0 ctrl0 ''/path'' False =
     Inl (NullDeref,
          [atcmd_configDataMode 0 (''CONNECT'' @ CRLF) ''http://h/path'' 13,
           AT_QHTTPURL 13,
           AT_QHTTPCFG_requestheader])"
  by code_simp

text \<open>
  Whatever the content length, the fifth byte that the fix-up writes into the field is
  the terminator \<open>snprintf\<close> stored, not the last digit.
\<close>

lemma snprintf_5d_terminated:
  "length (snprintf_5d 5 n) = 5" "snprintf_5d 5 n ! 4 = NUL"
proof -
  have l: "length (take 4 (fmt_5d n)) = 4"
    by (simp add: fmt_5d_def)
  show "length (snprintf_5d 5 n) = 5"
    using l by (simp add: snprintf_5d_def)
  show "snprintf_5d 5 n ! 4 = NUL"
    using l by (simp add: snprintf_5d_def nth_append del: length_take)
qed

lemma fixupContentLength_field:
  assumes "fixupContentLength rq = Inr rq'"
  shows "requestBuffer rq' ! (unat (headersLen rq) - 5) = NUL"
proof -
  let ?h = "unat (headersLen rq)"
  let ?v = "snprintf_5d 5 (unat (contentLen rq))"
  have h: "9 \<le> ?h" "?h - 9 + 5 \<le> length (requestBuffer rq)"
    and b: "requestBuffer rq' = take (?h - 9) (requestBuffer rq) @ ?v @ drop (?h - 9 + 5) (requestBuffer rq)"
    using assms snprintf_5d_terminated(1) [of "unat (contentLen rq)"]
    by (auto simp: fixupContentLength_def Let_def memcpy_def bind_err_def split: if_splits)
  have l: "length (take (?h - 9) (requestBuffer rq)) = ?h - 9"
    using h by simp
  have "requestBuffer rq' ! (?h - 9 + 4) = ?v ! 4"
    unfolding b using l snprintf_5d_terminated(1) [of "unat (contentLen rq)"]
    by (simp add: nth_append)
  moreover have "?h - 9 + 4 = ?h - 5" using h by simp
  ultimately show ?thesis
    by (simp add: snprintf_5d_terminated(2))
qed

text \<open>
  C5.  For a staged request with a five-byte body, the fix-up leaves the bytes outside
  the five-character field alone but does not write the decimal length into it:
  \<open>snprintf\<close> into the five-byte array keeps four characters of \<open>"    5"\<close> and the
  terminator, so the field handed to the dispatcher for transmission is four spaces
  and a NUL.  (\<open>http_postCustomRequest\<close> then stops at \<open>strlen(postData)\<close>, which it
  calls with the \<open>NULL\<close> it passes for \<open>postData\<close>.)
\<close>

theorem postCustomRequest_contentLength:
  "http_addPostData rqHdrs ''hello'' 5 = Inr rqPosted \<and>
   fixupContentLength rqPosted =
     Inr (rqPosted\<lparr>requestBuffer :=
            ''POST /p HTTP/1.1'' @ CRLF @ ''Host: h'' @ CRLF @
            ''Content-Length: '' @ ''    '' @ [NUL] @ CRLF @ CRLF @ ''hello'' @
            replicate 103 NUL\<rparr>) \<and>
   http_postCustomRequest env0 ctrl0 ''/p'' rqPosted False =
     Inl (NullDeref,
          [atcmd_configDataMode 0 (''CONNECT'' @ CRLF) ''http://h/p'' 10,
           AT_QHTTPURL 10,
           AT_QHTTPCFG_requestheader,
           atcmd_configDataMode 1 ''CONNECT''
             (''POST /p HTTP/1.1'' @ CRLF @ ''Host: h'' @ CRLF @
              ''Content-Length: '' @ ''    '' @ [NUL] @ CRLF @ CRLF @ ''hello'' @
              replicate 103 NUL)
             57])"
  by code_simp

subsection \<open>RequestBuilder\<close>

text \<open>
  For every bitmap, each of the four tests has the same outcome: bit 0 of the bitmap
  is set, or the bitmap is the all value.
\<close>

lemma hdrTest_low_bit:
  "hdrTest headerMap httpHeaderMap_accept = (headerMap AND 1 \<noteq> 0 \<or> headerMap = httpHeaderMap_all)"
  "hdrTest headerMap httpHeaderMap_userAgent = hdrTest headerMap httpHeaderMap_accept"
  "hdrTest headerMap httpHeaderMap_connection = hdrTest headerMap httpHeaderMap_accept"
  "hdrTest headerMap httpHeaderMap_contentType = hdrTest headerMap httpHeaderMap_accept"
  by (simp_all add: hdrTest_def httpHeaderMap_accept_def httpHeaderMap_userAgent_def
      httpHeaderMap_connection_def httpHeaderMap_contentType_def)

text \<open>
  C6.  The bitmap test reads \<open>headerMap & (bit > 0)\<close>, so only the lowest bit of the
  bitmap counts: selecting User-Agent alone appends no header, and selecting Accept
  alone appends all four.
\<close>

theorem addCommonHdrs_selects_by_low_bit:
  "map_sum id (\<lambda>r. c_str (requestBuffer r))
     (http_addCommonHdrs 102 rqHdrs httpHeaderMap_userAgent) =
     Inr (''POST /p HTTP/1.1'' @ CRLF @ ''Host: h'' @ CRLF) \<and>
   map_sum id (\<lambda>r. c_str (requestBuffer r))
     (http_addCommonHdrs 102 rqHdrs httpHeaderMap_accept) =
     Inr (''POST /p HTTP/1.1'' @ CRLF @ ''Host: h'' @ CRLF @ ''Accept: */*'' @ CRLF @
          ''User-Agent: QUECTEL_MODULE'' @ CRLF @ ''Connection: Keep-Alive'' @ CRLF @
          ''Content-Type: application/octet-stream'' @ CRLF)"
  by code_simp

text \<open>
  C7.  \<open>http_createRequest\<close> for a GET writes the request line and the Host header
  without the CRLF that should end the header; a host given with its protocol is not
  stripped to the host name (with zeroed memory at the address computed, nothing is
  written for the host); and a method other than GET or POST returns a request whose
  buffer holds \<open>INVALID_TYPE\<close>.
\<close>

theorem createRequest_text:
  "map_sum id (\<lambda>r. c_str (requestBuffer r))
     (http_createRequest mem httpRequestType_GET ''example.com'' ''/index'' 64) =
     Inr (''GET /index HTTP/1.1'' @ CRLF @ ''Host: example.com'') \<and>
   map_sum id (\<lambda>r. c_str (requestBuffer r))
     (http_createRequest (\<lambda>a. []) httpRequestType_GET ''http://example.com'' ''/index'' 64) =
     Inr (''GET /index HTTP/1.1'' @ CRLF @ ''Host: '') \<and>
   map_sum id (\<lambda>r. c_str (requestBuffer r))
     (http_createRequest mem httpRequestType_none ''example.com'' ''/index'' 64) =
     Inr ''INVALID_TYPE''"
  by (simp add: http_createRequest_def strcat_def strlen_def memcpy_def bind_err_def c_str_def
      NUL_def CRLF_def CR_def LF_def)

text \<open>
  C8.  In a 64-byte buffer with 27 bytes of headers, a first \<open>http_addPostData\<close> of 20
  bytes fails its capacity assertion and a first call of 10 bytes is accepted; a second
  call of 10 bytes is not checked and copies past the end of the buffer.
\<close>

theorem addPostData_second_call_overruns:
  "http_addPostData rqSmall ''aaaaaaaaaaaaaaaaaaaa'' 20 = Inl AssertFailed \<and>
   http_addPostData rqSmall ''aaaaaaaaaa'' 10 =
     Inr \<lparr>requestBuffer = ''POST /p HTTP/1.1'' @ CRLF @ ''Host: h'' @ CRLF @
                ''Content-Length:     0'' @ CRLF @ CRLF @ ''aaaaaaaaaa'' @ replicate 2 NUL,
          requestBuffersz = 64, contentLen = 10, headersLen = 52\<rparr> \<and>
   bind_err (http_addPostData rqSmall ''aaaaaaaaaa'' 10)
     (\<lambda>r. http_addPostData r ''bbbbbbbbbb'' 10) = Inl BufferOverrun"
  by code_simp

subsection \<open>PageStreamPump\<close>

lemma rxPass_starved:
  assumes "starved c (rxBffr p)"
  shows "rxPass c p = Inr p"
proof -
  have m: "min BBFFR_NOTFOUND (defaultBlockSz c) = defaultBlockSz c"
  proof (rule min_absorb2)
    have "unat (defaultBlockSz c) < 2 ^ 16"
      using unsigned_less [of "defaultBlockSz c", where ?'a = nat] by simp
    then show "defaultBlockSz c \<le> BBFFR_NOTFOUND"
      by (simp add: BBFFR_NOTFOUND_def word_le_nat_alt)
  qed
  show ?thesis
    using assms by (simp add: rxPass_def starved_def m Let_def not_le [symmetric])
qed

lemma deliver_none: "inbound p = [] \<Longrightarrow> deliver p = p"
  by (simp add: deliver_def)

lemma rxLoop_returns_not_starved:
  assumes "rxLoop c p = Some y"
  shows "\<not> (starved c (rxBffr p) \<and> inbound p = [])"
proof (rule rxLoop.raw_induct
    [where P = "\<lambda>c p y. \<not> (starved c (rxBffr p) \<and> inbound p = [])", OF _ assms])
  fix loop :: "httpCtrl \<Rightarrow> pump \<Rightarrow> ((error + resultCode) \<times> pump) option"
  fix c p y
  assume ih: "\<And>c p y. loop c p = Some y \<Longrightarrow> \<not> (starved c (rxBffr p) \<and> inbound p = [])"
    and step: "(case rxPass c p of Inl r \<Rightarrow> Some r | Inr p' \<Rightarrow> loop c (deliver p')) = Some y"
  show "\<not> (starved c (rxBffr p) \<and> inbound p = [])"
  proof
    assume s: "starved c (rxBffr p) \<and> inbound p = []"
    then have "rxPass c p = Inr p" "deliver p = p"
      by (simp_all add: rxPass_starved deliver_none)
    with step have "loop c p = Some y" by simp
    from ih [OF this] s show False by simp
  qed
qed

lemma rxLoop_starved:
  assumes "starved c (rxBffr p)" and "inbound p = []"
  shows "rxLoop c p = None"
proof (cases "rxLoop c p")
  case None
  then show ?thesis .
next
  case (Some y)
  with rxLoop_returns_not_starved [OF Some] assms show ?thesis by simp
qed

lemma sublist_index_CR:
  assumes "CR \<notin> set line"
  shows "sublist_index [CR] (line @ CR # rest) = Some (length line)"
  using assms by (induction line) auto

lemma popCnt_line:
  assumes "CR \<notin> set line" and "length line \<le> 30"
  shows "(ucast (bbffr_find (line @ CRLF @ body) [CR]) :: 8 word) = of_nat (length line)"
    and "unat (of_nat (length line) :: 8 word) = length line"
    and "(ucast (of_nat (length line) :: 8 word) :: 16 word) \<noteq> BBFFR_NOTFOUND"
proof -
  show "(ucast (bbffr_find (line @ CRLF @ body) [CR]) :: 8 word) = of_nat (length line)"
    using sublist_index_CR [OF assms(1)] assms(2)
    by (simp add: bbffr_find_def CRLF_def unsigned_of_nat take_bit_nat_eq_self)
  show u: "unat (of_nat (length line) :: 8 word) = length line"
    using assms(2) by (simp add: unat_of_nat)
  have "(ucast (of_nat (length line) :: 8 word) :: 16 word) = of_nat (length line)"
    using assms(2) by (simp add: unsigned_of_nat take_bit_nat_eq_self)
  moreover have "unat (of_nat (length line) :: 16 word) = length line"
    using assms(2) by (simp add: unat_of_nat)
  ultimately show "(ucast (of_nat (length line) :: 8 word) :: 16 word) \<noteq> BBFFR_NOTFOUND"
    using assms(2) by (auto simp: BBFFR_NOTFOUND_def)
qed

lemma rxHndlr_starved:
  assumes "CR \<notin> set line" and "length line \<le> 30" and "starved c body"
  shows "rxPass c \<lparr>rxBffr = body, wrkBffr = replicate 32 NUL, appRecv = a, inbound = []\<rparr> =
           Inr \<lparr>rxBffr = body, wrkBffr = replicate 32 NUL, appRecv = a, inbound = []\<rparr> \<and>
         S__httpRxHndlr c \<lparr>rxBffr = line @ CRLF @ body, wrkBffr = w, appRecv = a, inbound = []\<rparr> =
           None"
proof -
  let ?p = "\<lparr>rxBffr = body, wrkBffr = replicate 32 NUL, appRecv = a, inbound = []\<rparr>"
  have l: "rxLoop c ?p = None"
    using assms(3) by (simp add: rxLoop_starved)
  have pop: "bbffr_pop (line @ CR # LF # body) (Suc (Suc (length line))) = (line @ [CR, LF], body)"
    by (simp add: bbffr_pop_def)
  show ?thesis
    using popCnt_line [OF assms(1,2)] assms(2) l rxPass_starved [of c ?p] assms(3)
    by (simp add: S__httpRxHndlr_def Let_def pop CRLF_def)
qed

text \<open>
  C2 (as amended).  Whenever neither a forwardable block nor the terminal marker is in
  the receive buffer after the preamble line, a pass of the handler's loop forwards
  nothing and changes nothing, and the loop goes round again: with no further bytes
  arriving, the invocation does not return.  The handler polls the ring buffer until
  the inbound transport has delivered more.
\<close>

theorem rxHndlr_polls_until_fed:
  assumes "CR \<notin> set line" and "length line \<le> 30" and "starved c body"
  shows "rxPass c \<lparr>rxBffr = body, wrkBffr = replicate 32 NUL, appRecv = a, inbound = []\<rparr> =
           Inr \<lparr>rxBffr = body, wrkBffr = replicate 32 NUL, appRecv = a, inbound = []\<rparr> \<and>
         S__httpRxHndlr c \<lparr>rxBffr = line @ CRLF @ body, wrkBffr = w, appRecv = a, inbound = []\<rparr> =
           None"
  using assms by (rule rxHndlr_starved)

lemma starved_short:
  "starved ctrl0 ''abc''" "starved ctrl0 ''xy''"
  by (simp_all add: starved_def ctrl0_def bbffr_find_def bbffr_getOccupied_def
      trailerMarker_def CRLF_def CR_def LF_def BBFFR_NOTFOUND_def)

theorem rxHndlr_polls_until_fed_witness:
  "rxPass ctrl0 \<lparr>rxBffr = ''xy'', wrkBffr = replicate 32 NUL, appRecv = [], inbound = []\<rparr> =
     Inr \<lparr>rxBffr = ''xy'', wrkBffr = replicate 32 NUL, appRecv = [], inbound = []\<rparr> \<and>
   S__httpRxHndlr ctrl0
     \<lparr>rxBffr = ''CONNECT'' @ CRLF @ ''xy'', wrkBffr = replicate 32 NUL, appRecv = [],
      inbound = []\<rparr> = None"
  using rxHndlr_polls_until_fed [of "''CONNECT''" ctrl0 "''xy''" "[]" "replicate 32 NUL"]
    starved_short(2)
  by (simp add: CR_def)

text \<open>
  C2 as stated fails: with the preamble line and three body bytes buffered, a block
  size of four, no marker and nothing more arriving, the invocation never returns.
\<close>

theorem rxHndlr_returns_counterexample:
  "starved ctrl0 ''abc'' \<and> inbound pumpStarved = [] \<and>
   rxBffr pumpStarved = ''CONNECT'' @ CRLF @ ''abc'' \<and>
   S__httpRxHndlr ctrl0 pumpStarved = None"
  using rxHndlr_starved [of "''CONNECT''" ctrl0 "''abc''" "[]" "replicate 32 NUL"]
    starved_short(1)
  by (simp add: pumpStarved_def CR_def)

text \<open>
  C3.  With the whole stream buffered (twenty body bytes, the marker, the read
  trailer) and a block size of sixteen, the handler forwards the first sixteen bytes
  with the final-chunk flag set, pops the other four body bytes into its work buffer
  together with the marker and the trailer, and returns success: four body bytes are
  never forwarded, and the flagged chunk is not the last chunk of the body.
\<close>

theorem rxHndlr_final_flag_early:
  "S__httpRxHndlr ctrl16 pumpBuffered =
     Some (Inr resultCode__success,
           \<lparr>rxBffr = [],
            wrkBffr = ''ghij'' @ trailerMarker @ ''+QHTTPREAD: 0'' @ CRLF @ replicate 5 NUL,
            appRecv = [(''0123456789abcdef'', True)], inbound = []\<rparr>)"
  by code_simp

end
